theory Spec2Isabelle
  imports
    Main
    "HOL-Library.Multiset"
    "HOL-Library.Char_ord"
    "HOL-Library.List_Lexorder"
begin

unbundle bit_operations_syntax

section \<open>The test harness of tortik: \<^verbatim>\<open>tortik_tests/runtests.py\<close>\<close>

text \<open>
  The harness is one Python file. Its own logic is small: a log filter that counts
  records by severity (\<^verbatim>\<open>LogCounter\<close>), a test runner that adds a digest of the skip
  reasons to the standard output (\<^verbatim>\<open>TornadoTextTestRunner\<close>), and \<^verbatim>\<open>main\<close>, which
  registers warning filters, defines command-line options with their callbacks and
  hands over to \<^verbatim>\<open>tornado.testing.main\<close>.

  Python's unbounded integers are \<^typ>\<open>int\<close>, strings are \<^typ>\<open>string\<close>, a raised
  exception is the left summand of a result.
\<close>

datatype error =
    RuntimeError string
  | TypeError string
  | AttributeError string
  | ImportError string
  | ValueError string
  | OverflowError string
  | IndexError string
  | LocaleError string

subsection \<open>\<^verbatim>\<open>LogCounter\<close> (lines 54 to 67)\<close>

text \<open>The two level constants of the \<^verbatim>\<open>logging\<close> module that the filter compares with.\<close>

definition WARNING :: int where
  "WARNING = 30"

definition ERROR :: int where
  "ERROR = 40"

text \<open>Of a log record the filter reads \<^verbatim>\<open>levelno\<close> only; the text travels along.\<close>

record LogRecord =
  levelno :: int
  msg :: string

record LogCounter =
  warning_count :: int
  error_count :: int

text \<open>\<^verbatim>\<open>__init__\<close>: \<^verbatim>\<open>self.warning_count = self.error_count = 0\<close>.\<close>

definition LogCounter_init :: LogCounter where
  "LogCounter_init = \<lparr>warning_count = 0, error_count = 0\<rparr>"

text \<open>
  \<^verbatim>\<open>filter(self, record)\<close>: the returned pair is the method's return value and the
  counter after the call.
\<close>

definition LogCounter_filter :: "LogCounter \<Rightarrow> LogRecord \<Rightarrow> bool \<times> LogCounter" where
  "LogCounter_filter self record =
     (if levelno record \<ge> ERROR then
        (True, self\<lparr>error_count := error_count self + 1\<rparr>)
      else if levelno record \<ge> WARNING then
        (True, self\<lparr>warning_count := warning_count self + 1\<rparr>)
      else (True, self))"

text \<open>
  The counter is attached to the root logger's first handler (line 176). A handler
  passes every record to its filters and emits the record when the filter returns a
  true value. \<open>handle\<close> is that loop over the records of a session, in emission order:
  it returns the records that were emitted and the counter at the end.
\<close>

fun handle :: "LogCounter \<Rightarrow> LogRecord list \<Rightarrow> LogRecord list \<times> LogCounter" where
  "handle self [] = ([], self)"
| "handle self (record # records) =
     (case LogCounter_filter self record of
        (rv, self') \<Rightarrow>
          (case handle self' records of
             (emitted, self'') \<Rightarrow> ((if rv then [record] else []) @ emitted, self'')))"

subsection \<open>\<^verbatim>\<open>TornadoTextTestRunner\<close> (lines 39 to 51)\<close>

text \<open>
  Of the result of a run the wrapper reads \<^verbatim>\<open>skipped\<close>, a list of pairs of a test and
  the reason it was skipped; \<^verbatim>\<open>failures\<close>, \<^verbatim>\<open>errors\<close> and \<^verbatim>\<open>testsRun\<close> are what the exit
  status and the standard summary are computed from. A test is named by its identifier.
\<close>

record TestResult =
  skipped :: "(string \<times> string) list"
  failures :: "(string \<times> string) list"
  errors :: "(string \<times> string) list"
  testsRun :: nat

text \<open>The output stream is the text written so far; \<^verbatim>\<open>stream.write\<close> appends.\<close>

definition stream_write :: "string \<Rightarrow> string \<Rightarrow> string" where
  "stream_write stream s = stream @ s"

definition newline :: string where
  "newline = [CHR 0x0A]"

text \<open>\<^verbatim>\<open>sep.join(xs)\<close>.\<close>

fun join :: "string \<Rightarrow> string list \<Rightarrow> string" where
  "join sep [] = []"
| "join sep [x] = x"
| "join sep (x # y # ys) = x @ sep @ join sep (y # ys)"

text \<open>
  \<^verbatim>\<open>run(self, test)\<close>. Two functions of the standard library are parameters:
  \<open>super_run\<close> is \<^verbatim>\<open>unittest.TextTestRunner.run\<close>, which runs the tests, writes the
  standard output to the stream and returns the result; \<open>fill\<close> is \<^verbatim>\<open>textwrap.fill\<close>,
  which wraps a text into one paragraph. \<^verbatim>\<open>sorted\<close> on a set of strings is the sorted
  list of its elements, in the lexicographic order of the characters. The returned
  pair is the method's return value and the stream after the call.
\<close>

definition TornadoTextTestRunner_run ::
  "(string \<Rightarrow> string) \<Rightarrow> ('suite \<Rightarrow> string \<Rightarrow> TestResult \<times> string) \<Rightarrow> string \<Rightarrow> 'suite
     \<Rightarrow> TestResult \<times> string" where
  "TornadoTextTestRunner_run fill super_run stream test =
     (case super_run test stream of
        (result, stream1) \<Rightarrow>
          if skipped result \<noteq> [] then
            let skip_reasons = set (map snd (skipped result));
                stream2 = stream_write stream1
                  (fill (''Some tests were skipped because: ''
                         @ join '', '' (sorted_list_of_set skip_reasons)));
                stream3 = stream_write stream2 newline
            in (result, stream3)
          else (result, stream1))"

text \<open>
  Sample results: three skipped tests in two modules, all for the same reason; three
  skipped tests with two reasons; and a run without skipped tests. The sample runner
  writes a fixed summary line.
\<close>

definition result_same_reason :: TestResult where
  "result_same_reason =
     \<lparr>skipped = [(''A.test_one'', ''no network''), (''A.test_two'', ''no network''),
                 (''B.test_one'', ''no network'')],
      failures = [], errors = [], testsRun = 3\<rparr>"

definition result_two_reasons :: TestResult where
  "result_two_reasons =
     \<lparr>skipped = [(''A.test_one'', ''no network''), (''A.test_two'', ''curl missing''),
                 (''B.test_one'', ''no network'')],
      failures = [], errors = [], testsRun = 3\<rparr>"

definition result_no_skips :: TestResult where
  "result_no_skips =
     \<lparr>skipped = [], failures = [(''A.test_one'', ''AssertionError'')], errors = [], testsRun = 2\<rparr>"

definition sample_runner :: "TestResult \<Rightarrow> string \<Rightarrow> TestResult \<times> string" where
  "sample_runner result stream = (result, stream_write stream (''Ran tests'' @ newline))"

subsection \<open>The warning filters of \<^verbatim>\<open>main\<close> (lines 74 to 129)\<close>

text \<open>
  \<^verbatim>\<open>main\<close> calls \<^verbatim>\<open>warnings.filterwarnings\<close> thirteen times. The filter list and its
  search belong to Python's \<^verbatim>\<open>warnings\<close> module, not to the repository; they are
  written down here as the module documents and implements them, reduced to what
  decides the action taken for a warning:
  \<^item> a filter is the tuple \<^verbatim>\<open>(action, message, category, module, lineno)\<close>;
  \<^item> \<^verbatim>\<open>filterwarnings\<close> (with the default \<^verbatim>\<open>append=False\<close>, the only form \<^verbatim>\<open>main\<close>
    uses) removes an equal filter from the list, if there is one, and inserts the new
    filter at the front (Python 2 inserts without removing, which gives the same
    actions: \<open>classify_insert_only\<close> below);
  \<^item> \<^verbatim>\<open>warn_explicit\<close> walks the list from the front and takes the action of the first
    filter that matches; when none matches it takes \<^verbatim>\<open>warnings.defaultaction\<close>.
  A warning category is a class below \<^verbatim>\<open>Warning\<close>; a filter matches the categories
  that are subclasses of its own.
\<close>

datatype action = Error | Ignore | Always | Default | Module | Once

datatype category = Warning | Subclass string category

fun issubclass :: "category \<Rightarrow> category \<Rightarrow> bool" where
  "issubclass Warning d = (d = Warning)"
| "issubclass (Subclass name base) d = (Subclass name base = d \<or> issubclass base d)"

definition DeprecationWarning :: category where
  "DeprecationWarning = Subclass ''DeprecationWarning'' Warning"

definition PendingDeprecationWarning :: category where
  "PendingDeprecationWarning = Subclass ''PendingDeprecationWarning'' Warning"

definition ImportWarning :: category where
  "ImportWarning = Subclass ''ImportWarning'' Warning"

definition BytesWarning :: category where
  "BytesWarning = Subclass ''BytesWarning'' Warning"

record filter_item =
  action :: action
  message :: string
  category :: category
  module :: string
  lineno :: nat

text \<open>
  A warning as \<^verbatim>\<open>warn_explicit\<close> sees it: the text of the message, its category, the
  name of the module it is attributed to and the line number.
\<close>

record warning_event =
  w_text :: string
  w_category :: category
  w_module :: string
  w_lineno :: nat

text \<open>
  The call \<^verbatim>\<open>filterwarnings(action, message="", category=Warning, module="", lineno=0)\<close>
  with the defaults of its signature. The two patterns are regular expressions; the
  empty pattern stands for no constraint.
\<close>

definition filterwarnings :: "filter_item \<Rightarrow> filter_item list \<Rightarrow> filter_item list" where
  "filterwarnings item filters = item # remove1 item filters"

definition rule :: "action \<Rightarrow> string \<Rightarrow> category \<Rightarrow> string \<Rightarrow> filter_item" where
  "rule act message_pattern cat module_pattern =
     \<lparr>action = act, message = message_pattern, category = cat, module = module_pattern,
      lineno = 0\<rparr>"

text \<open>
  The regular-expression engine is a parameter \<open>re_match ignorecase pattern text\<close>:
  whether \<^verbatim>\<open>re.compile(pattern, flags).match(text)\<close> finds a match at the start of the
  text. The message pattern is compiled with \<^verbatim>\<open>re.I\<close>, the module pattern without.
\<close>

type_synonym re_match = "bool \<Rightarrow> string \<Rightarrow> string \<Rightarrow> bool"

definition item_matches :: "re_match \<Rightarrow> filter_item \<Rightarrow> warning_event \<Rightarrow> bool" where
  "item_matches rx item ev =
     ((message item = [] \<or> rx True (message item) (w_text ev))
      \<and> issubclass (w_category ev) (category item)
      \<and> (module item = [] \<or> rx False (module item) (w_module ev))
      \<and> (lineno item = 0 \<or> w_lineno ev = lineno item))"

definition defaultaction :: action where
  "defaultaction = Default"

text \<open>The search loop of \<^verbatim>\<open>warn_explicit\<close>: \<^verbatim>\<open>for item in filters: ... break\<close>, \<^verbatim>\<open>else: defaultaction\<close>.\<close>

fun classify :: "re_match \<Rightarrow> filter_item list \<Rightarrow> warning_event \<Rightarrow> action" where
  "classify rx [] ev = defaultaction"
| "classify rx (item # filters) ev =
     (if item_matches rx item ev then action item else classify rx filters ev)"

text \<open>The backslash of the raw strings \<^verbatim>\<open>r"tornado\..*"\<close> and \<^verbatim>\<open>r"twisted\..*"\<close>.\<close>

definition tornado_modules :: string where
  "tornado_modules = ''tornado'' @ [CHR 0x5C] @ ''..*''"

definition twisted_modules :: string where
  "twisted_modules = ''twisted'' @ [CHR 0x5C] @ ''..*''"

text \<open>The thirteen registrations of \<^verbatim>\<open>main\<close>, in the order of the calls (lines 79 to 129).\<close>

definition main_rules :: "filter_item list" where
  "main_rules =
     [rule Error [] Warning [],
      rule Ignore [] ImportWarning [],
      rule Ignore [] DeprecationWarning [],
      rule Error [] DeprecationWarning tornado_modules,
      rule Ignore ''gen.Task is deprecated'' DeprecationWarning tornado_modules,
      rule Ignore ''StackContext is deprecated'' DeprecationWarning tornado_modules,
      rule Ignore ''@asynchronous is deprecated'' DeprecationWarning tornado_modules,
      rule Ignore ''callback arguments are deprecated'' DeprecationWarning tornado_modules,
      rule Ignore [] PendingDeprecationWarning [],
      rule Error [] PendingDeprecationWarning tornado_modules,
      rule Ignore ''Please use assert.* instead'' DeprecationWarning [],
      rule Ignore ''Please use assert.* instead'' PendingDeprecationWarning [],
      rule Ignore [] BytesWarning twisted_modules]"

text \<open>Registering a sequence of rules, one call after the other.\<close>

definition register_all :: "filter_item list \<Rightarrow> filter_item list \<Rightarrow> filter_item list" where
  "register_all filters rules = foldl (\<lambda>fs item. filterwarnings item fs) filters rules"

definition main_filterwarnings :: "filter_item list \<Rightarrow> filter_item list" where
  "main_filterwarnings filters = register_all filters main_rules"

subsection \<open>A matcher for the patterns of \<^verbatim>\<open>main\<close>\<close>

text \<open>
  The results about the filters hold for every matcher. To evaluate the filters of
  \<^verbatim>\<open>main\<close> on concrete warnings, \<open>re_match_fragment\<close> implements \<^verbatim>\<open>re.match\<close> for the
  fragment of the pattern language that these patterns are written in: a literal
  character, a backslash before a character that is not alphanumeric (that character,
  literally), \<^verbatim>\<open>.\<close> (any character but a newline) and \<^verbatim>\<open>*\<close> after one of these. A
  pattern outside the fragment is not interpreted: it matches nothing.
\<close>

datatype token = TLit char | TAny | TStar

definition is_alnum :: "char \<Rightarrow> bool" where
  "is_alnum c =
     ((CHR ''a'' \<le> c \<and> c \<le> CHR ''z'') \<or> (CHR ''A'' \<le> c \<and> c \<le> CHR ''Z'')
      \<or> (CHR ''0'' \<le> c \<and> c \<le> CHR ''9''))"

definition lower :: "char \<Rightarrow> char" where
  "lower c = (if CHR ''A'' \<le> c \<and> c \<le> CHR ''Z'' then char_of (of_char c + (32::nat)) else c)"

fun tokenize :: "string \<Rightarrow> token list option" where
  "tokenize [] = Some []"
| "tokenize (c # cs) =
     (if c = CHR 0x5C then
        (case cs of
           [] \<Rightarrow> None
         | d # ds \<Rightarrow> if is_alnum d then None else map_option ((#) (TLit d)) (tokenize ds))
      else if c \<in> set ''[](){}+?|^$'' then None
      else map_option
             ((#) (if c = CHR ''.'' then TAny else if c = CHR ''*'' then TStar else TLit c))
             (tokenize cs))"

fun starred :: "token list \<Rightarrow> (token \<times> bool) list option" where
  "starred [] = Some []"
| "starred (TStar # ts) = None"
| "starred (t # TStar # ts) = map_option ((#) (t, True)) (starred ts)"
| "starred (t # ts) = map_option ((#) (t, False)) (starred ts)"

fun token_ok :: "bool \<Rightarrow> token \<Rightarrow> char \<Rightarrow> bool" where
  "token_ok ignorecase (TLit a) c = (if ignorecase then lower a = lower c else a = c)"
| "token_ok ignorecase TAny c = (c \<noteq> CHR 0x0A)"
| "token_ok ignorecase TStar c = False"

fun match_here :: "bool \<Rightarrow> (token \<times> bool) list \<Rightarrow> string \<Rightarrow> bool" where
  "match_here ignorecase [] text = True"
| "match_here ignorecase ((t, False) # rest) text =
     (case text of
        [] \<Rightarrow> False
      | c # cs \<Rightarrow> token_ok ignorecase t c \<and> match_here ignorecase rest cs)"
| "match_here ignorecase ((t, True) # rest) text =
     (match_here ignorecase rest text
      \<or> (case text of
            [] \<Rightarrow> False
          | c # cs \<Rightarrow> token_ok ignorecase t c \<and> match_here ignorecase ((t, True) # rest) cs))"

definition re_match_fragment :: re_match where
  "re_match_fragment ignorecase pattern text =
     (case tokenize pattern of
        None \<Rightarrow> False
      | Some ts \<Rightarrow>
          (case starred ts of
             None \<Rightarrow> False
           | Some p \<Rightarrow> match_here ignorecase p text))"

subsection \<open>Sample warnings\<close>

text \<open>
  Three warnings to evaluate the filters on: a deprecation raised inside tornado with
  one of the exempted messages, a deprecation raised in application code, and a user
  warning, for which \<^verbatim>\<open>main\<close> registers no rule of its own.
\<close>

definition gen_task_warning :: warning_event where
  "gen_task_warning =
     \<lparr>w_text = ''gen.Task is deprecated, use coroutines'', w_category = DeprecationWarning,
      w_module = ''tornado.gen'', w_lineno = 12\<rparr>"

definition app_deprecation :: warning_event where
  "app_deprecation =
     \<lparr>w_text = ''old call'', w_category = DeprecationWarning,
      w_module = ''myapp.handlers'', w_lineno = 7\<rparr>"

definition user_warning :: warning_event where
  "user_warning =
     \<lparr>w_text = ''careful'', w_category = Subclass ''UserWarning'' Warning,
      w_module = ''tortik.page'', w_lineno = 3\<rparr>"

subsection \<open>The environment of the harness\<close>

text \<open>
  What \<^verbatim>\<open>main\<close> calls but does not define is the environment: the platform and the
  libraries. Each entry is a parameter.
  \<^item> \<open>monotonic_time\<close>: \<^verbatim>\<open>tornado.platform.auto.monotonic_time\<close>, \<^verbatim>\<open>None\<close> on a platform
    without a monotonic clock; a clock function is named by a string.
  \<^item> \<open>gc_getattr\<close>: the attributes of the \<^verbatim>\<open>gc\<close> module, an integer constant or some
    other object; \<^verbatim>\<open>None\<close> for a name the module does not have.
  \<^item> \<open>import_object\<close>: the check of \<^verbatim>\<open>Configurable.configure\<close> on the implementation
    name given for a configurable base class; \<^verbatim>\<open>None\<close> when the name imports and is a
    subclass of the base, the exception raised otherwise.
  \<^item> \<open>IOLoop_check\<close>: the checks of \<^verbatim>\<open>IOLoop.configure\<close> on its first argument, a name
    or \<^verbatim>\<open>None\<close>; they differ between the versions of tornado, also on \<^verbatim>\<open>None\<close>.
  \<^item> \<open>setlocale\<close>: the exception \<^verbatim>\<open>locale.setlocale\<close> raises for a locale name, if any.
  \<^item> \<open>defaultTestLoader\<close>: \<^verbatim>\<open>unittest.defaultTestLoader.loadTestsFromNames\<close>.
  \<^item> \<open>TextTestRunner_run\<close>: \<^verbatim>\<open>unittest.TextTestRunner.run\<close>.
  \<^item> \<open>textwrap_fill\<close>: \<^verbatim>\<open>textwrap.fill\<close>.
\<close>

datatype py_value = PyInt int | PyObject string

type_synonym time_func = string

text \<open>
  A loaded test is a test case, named by its identifier, or the placeholder that the
  loader of Python 3.5 and later makes for a name it could not load, which fails with
  the recorded error when it is run.
\<close>

datatype test = TestCase string | FailedTest string error

type_synonym suite = "test list"

record environment =
  monotonic_time :: "time_func option"
  gc_getattr :: "string \<Rightarrow> py_value option"
  import_object :: "string \<Rightarrow> string \<Rightarrow> error option"
  IOLoop_check :: "string option \<Rightarrow> error option"
  setlocale :: "string \<Rightarrow> error option"
  defaultTestLoader :: "string list \<Rightarrow> error + suite"
  TextTestRunner_run :: "suite \<Rightarrow> string \<Rightarrow> TestResult \<times> string"
  textwrap_fill :: "string \<Rightarrow> string"

subsection \<open>The state that \<^verbatim>\<open>main\<close> configures\<close>

text \<open>
  The process-wide settings that the harness writes: the list \<^verbatim>\<open>warnings.filters\<close>,
  the level of the logger \<^verbatim>\<open>tornado.access\<close>, the implementation class and keyword
  arguments stored by \<^verbatim>\<open>configure\<close> for each configurable class, the debug flags of the
  garbage collector, the locale, and for each handler of the root logger the counters
  attached to it as filters.
\<close>

record process =
  warnings_filters :: "filter_item list"
  access_log_level :: "int option"
  AsyncHTTPClient_impl :: "(string \<times> (string \<times> (string \<times> bool) list) list) option"
  HTTPServer_impl :: "string option"
  Resolver_impl :: "string option"
  IOLoop_impl :: "(string option \<times> (string \<times> time_func) list) option"
  gc_debug :: int
  lc_all :: "string option"
  root_handlers :: "LogCounter list list"

definition CRITICAL :: int where
  "CRITICAL = 50"

text \<open>
  \<^verbatim>\<open>Configurable.configure(impl, **kwargs)\<close> of tornado, for the four classes the
  harness configures: the implementation is checked, then it and the keyword arguments
  are stored. \<^verbatim>\<open>IOLoop.configure\<close> has checks of its own, on a name and on \<^verbatim>\<open>None\<close>.
\<close>

definition AsyncHTTPClient_configure ::
  "environment \<Rightarrow> string \<Rightarrow> (string \<times> (string \<times> bool) list) list \<Rightarrow> process \<Rightarrow> error + process" where
  "AsyncHTTPClient_configure env impl kwargs p =
     (case import_object env ''AsyncHTTPClient'' impl of
        Some e \<Rightarrow> Inl e
      | None \<Rightarrow> Inr (p\<lparr>AsyncHTTPClient_impl := Some (impl, kwargs)\<rparr>))"

definition HTTPServer_configure :: "environment \<Rightarrow> string \<Rightarrow> process \<Rightarrow> error + process" where
  "HTTPServer_configure env impl p =
     (case import_object env ''HTTPServer'' impl of
        Some e \<Rightarrow> Inl e
      | None \<Rightarrow> Inr (p\<lparr>HTTPServer_impl := Some impl\<rparr>))"

definition Resolver_configure :: "environment \<Rightarrow> string \<Rightarrow> process \<Rightarrow> error + process" where
  "Resolver_configure env impl p =
     (case import_object env ''Resolver'' impl of
        Some e \<Rightarrow> Inl e
      | None \<Rightarrow> Inr (p\<lparr>Resolver_impl := Some impl\<rparr>))"

definition IOLoop_configure ::
  "environment \<Rightarrow> string option \<Rightarrow> (string \<times> time_func) list \<Rightarrow> process \<Rightarrow> error + process" where
  "IOLoop_configure env impl kwargs p =
     (case IOLoop_check env impl of
        Some e \<Rightarrow> Inl e
      | None \<Rightarrow> Inr (p\<lparr>IOLoop_impl := Some (impl, kwargs)\<rparr>))"

text \<open>
  \<^verbatim>\<open>gc.set_debug(flags)\<close> takes a C \<^verbatim>\<open>int\<close>: another object is a \<^verbatim>\<open>TypeError\<close>, an integer
  out of the range of 32 bits an \<^verbatim>\<open>OverflowError\<close>.
\<close>

definition gc_set_debug :: "py_value \<Rightarrow> process \<Rightarrow> error + process" where
  "gc_set_debug flags p =
     (case flags of
        PyObject name \<Rightarrow> Inl (TypeError ''an integer is required'')
      | PyInt n \<Rightarrow>
          if - (2 ^ 31) \<le> n \<and> n < 2 ^ 31 then Inr (p\<lparr>gc_debug := n\<rparr>)
          else Inl (OverflowError ''signed integer is greater than maximum''))"

text \<open>\<^verbatim>\<open>operator.or_\<close>: bitwise on integers; the other objects of the \<^verbatim>\<open>gc\<close> module have no \<^verbatim>\<open>|\<close>.\<close>

fun operator_or :: "py_value \<Rightarrow> py_value \<Rightarrow> error + py_value" where
  "operator_or (PyInt a) (PyInt b) = Inr (PyInt (a OR b))"
| "operator_or a b = Inl (TypeError ''unsupported operand type(s) for |'')"

text \<open>
  \<^verbatim>\<open>reduce(function, iterable)\<close> without an initial value. The iterable is a generator,
  so each item is computed when \<^verbatim>\<open>reduce\<close> asks for it and may raise then: an item is a
  result. The first item starts the accumulator; an empty iterable is a \<^verbatim>\<open>TypeError\<close>.
\<close>

fun reduce_from :: "('a \<Rightarrow> 'a \<Rightarrow> error + 'a) \<Rightarrow> 'a \<Rightarrow> (error + 'a) list \<Rightarrow> error + 'a" where
  "reduce_from f acc [] = Inr acc"
| "reduce_from f acc (item # items) =
     (case item of
        Inl e \<Rightarrow> Inl e
      | Inr x \<Rightarrow> (case f acc x of Inl e \<Rightarrow> Inl e | Inr acc' \<Rightarrow> reduce_from f acc' items))"

fun reduce :: "('a \<Rightarrow> 'a \<Rightarrow> error + 'a) \<Rightarrow> (error + 'a) list \<Rightarrow> error + 'a" where
  "reduce f [] = Inl (TypeError ''reduce() of empty sequence with no initial value'')"
| "reduce f (item # items) =
     (case item of Inl e \<Rightarrow> Inl e | Inr x \<Rightarrow> reduce_from f x items)"

text \<open>\<^verbatim>\<open>getattr(gc, v)\<close>.\<close>

definition getattr_gc :: "environment \<Rightarrow> string \<Rightarrow> error + py_value" where
  "getattr_gc env v =
     (case gc_getattr env v of None \<Rightarrow> Inl (AttributeError v) | Some x \<Rightarrow> Inr x)"

subsection \<open>The options of \<^verbatim>\<open>main\<close> and their callbacks (lines 133 to 176)\<close>

text \<open>
  The seven options that \<^verbatim>\<open>main\<close> defines, with the defaults of the \<^verbatim>\<open>define\<close> calls
  (an option with \<^verbatim>\<open>multiple=True\<close> and no default starts as the empty list). The
  option \<^verbatim>\<open>locale\<close> is the field \<open>locale_opt\<close>.
\<close>

record options =
  httpclient :: "string option"
  httpserver :: "string option"
  ioloop :: "string option"
  ioloop_time_monotonic :: bool
  resolver :: "string option"
  debug_gc :: "string list"
  locale_opt :: "string option"

definition options_default :: options where
  "options_default =
     \<lparr>httpclient = None, httpserver = None, ioloop = None, ioloop_time_monotonic = False,
      resolver = None, debug_gc = [], locale_opt = None\<rparr>"

text \<open>
  The callback of \<^verbatim>\<open>httpclient\<close> (lines 137 to 139):
  \<^verbatim>\<open>lambda s: AsyncHTTPClient.configure(s, defaults=dict(allow_ipv6=False))\<close>.
\<close>

definition httpclient_callback :: "environment \<Rightarrow> string \<Rightarrow> process \<Rightarrow> error + process" where
  "httpclient_callback env s p =
     AsyncHTTPClient_configure env s [(''defaults'', [(''allow_ipv6'', False)])] p"

text \<open>
  The callback of \<^verbatim>\<open>debug_gc\<close> (lines 151 to 153):
  \<^verbatim>\<open>lambda values: gc.set_debug(reduce(operator.or_, (getattr(gc, v) for v in values)))\<close>.
\<close>

definition debug_gc_callback :: "environment \<Rightarrow> string list \<Rightarrow> process \<Rightarrow> error + process" where
  "debug_gc_callback env values p =
     (case reduce operator_or (map (getattr_gc env) values) of
        Inl e \<Rightarrow> Inl e
      | Inr flags \<Rightarrow> gc_set_debug flags p)"

text \<open>The callback of \<^verbatim>\<open>locale\<close> (line 159): \<^verbatim>\<open>lambda x: locale.setlocale(locale.LC_ALL, x)\<close>.\<close>

definition locale_callback :: "environment \<Rightarrow> string \<Rightarrow> process \<Rightarrow> error + process" where
  "locale_callback env x p =
     (case setlocale env x of
        Some e \<Rightarrow> Inl e
      | None \<Rightarrow> Inr (p\<lparr>lc_all := Some x\<rparr>))"

text \<open>Python's truth value of an option that is \<^verbatim>\<open>None\<close> or a string.\<close>

definition truthy :: "string option \<Rightarrow> bool" where
  "truthy v = (case v of None \<Rightarrow> False | Some s \<Rightarrow> s \<noteq> [])"

text \<open>
  \<^verbatim>\<open>configure_ioloop\<close> (lines 162 to 171). The inner \<^verbatim>\<open>case\<close> is the first \<^verbatim>\<open>if\<close>, which
  builds \<^verbatim>\<open>kwargs\<close> or raises; the rest is the second \<^verbatim>\<open>if\<close>.
\<close>

definition configure_ioloop :: "options \<Rightarrow> environment \<Rightarrow> process \<Rightarrow> error + process" where
  "configure_ioloop opts env p =
     (case (if ioloop_time_monotonic opts then
              (case monotonic_time env of
                 None \<Rightarrow> Inl (RuntimeError ''monotonic clock not found'')
               | Some f \<Rightarrow> Inr [(''time_func'', f)])
            else Inr []) of
        Inl e \<Rightarrow> Inl e
      | Inr kwargs \<Rightarrow>
          if truthy (ioloop opts) \<or> kwargs \<noteq> [] then IOLoop_configure env (ioloop opts) kwargs p
          else Inr p)"

text \<open>
  The second parse callback (line 176):
  \<^verbatim>\<open>logging.getLogger().handlers[0].addFilter(log_counter)\<close>, with the fresh counter of
  line 175. Indexing an empty list of handlers is an \<^verbatim>\<open>IndexError\<close>.
\<close>

definition add_log_counter :: "process \<Rightarrow> error + process" where
  "add_log_counter p =
     (case root_handlers p of
        [] \<Rightarrow> Inl (IndexError ''list index out of range'')
      | h # hs \<Rightarrow> Inr (p\<lparr>root_handlers := (h @ [LogCounter_init]) # hs\<rparr>))"

subsection \<open>The run: \<^verbatim>\<open>tornado.testing.main\<close> with the definitions of \<^verbatim>\<open>main\<close>\<close>

text \<open>
  The command line, already split into assignments to the options of the harness.
  Splitting the arguments and converting the values is tornado's; so are the options
  that \<^verbatim>\<open>tornado.testing.main\<close> and the logging setup define themselves.
\<close>

datatype arg =
    Arg_httpclient string
  | Arg_httpserver string
  | Arg_ioloop string
  | Arg_ioloop_time_monotonic bool
  | Arg_resolver string
  | Arg_debug_gc "string list"
  | Arg_locale string

text \<open>
  An assignment sets the option and then calls the callback given to \<^verbatim>\<open>define\<close>, if there
  is one, with the new value (\<^verbatim>\<open>_Option.parse\<close>); an exception of the callback ends the
  parse. \<^verbatim>\<open>HTTPServer.configure\<close> and \<^verbatim>\<open>Resolver.configure\<close> are callbacks as they are
  (lines 141 and 144).
\<close>

fun set_option :: "environment \<Rightarrow> arg \<Rightarrow> options \<times> process \<Rightarrow> error + options \<times> process" where
  "set_option env (Arg_httpclient s) (opts, p) =
     (case httpclient_callback env s p of
        Inl e \<Rightarrow> Inl e | Inr p' \<Rightarrow> Inr (opts\<lparr>httpclient := Some s\<rparr>, p'))"
| "set_option env (Arg_httpserver s) (opts, p) =
     (case HTTPServer_configure env s p of
        Inl e \<Rightarrow> Inl e | Inr p' \<Rightarrow> Inr (opts\<lparr>httpserver := Some s\<rparr>, p'))"
| "set_option env (Arg_ioloop s) (opts, p) = Inr (opts\<lparr>ioloop := Some s\<rparr>, p)"
| "set_option env (Arg_ioloop_time_monotonic b) (opts, p) =
     Inr (opts\<lparr>ioloop_time_monotonic := b\<rparr>, p)"
| "set_option env (Arg_resolver s) (opts, p) =
     (case Resolver_configure env s p of
        Inl e \<Rightarrow> Inl e | Inr p' \<Rightarrow> Inr (opts\<lparr>resolver := Some s\<rparr>, p'))"
| "set_option env (Arg_debug_gc values) (opts, p) =
     (case debug_gc_callback env values p of
        Inl e \<Rightarrow> Inl e | Inr p' \<Rightarrow> Inr (opts\<lparr>debug_gc := values\<rparr>, p'))"
| "set_option env (Arg_locale x) (opts, p) =
     (case locale_callback env x p of
        Inl e \<Rightarrow> Inl e | Inr p' \<Rightarrow> Inr (opts\<lparr>locale_opt := Some x\<rparr>, p'))"

fun parse_args :: "environment \<Rightarrow> arg list \<Rightarrow> options \<times> process \<Rightarrow> error + options \<times> process" where
  "parse_args env [] st = Inr st"
| "parse_args env (a # args) st =
     (case set_option env a st of Inl e \<Rightarrow> Inl e | Inr st' \<Rightarrow> parse_args env args st')"

text \<open>
  When the command line is parsed, the parse callbacks run in the order of their
  registration (lines 173 and 176).
\<close>

definition run_parse_callbacks :: "environment \<Rightarrow> options \<times> process \<Rightarrow> error + process" where
  "run_parse_callbacks env st =
     (case configure_ioloop (fst st) env (snd st) of
        Inl e \<Rightarrow> Inl e
      | Inr p' \<Rightarrow> add_log_counter p')"

text \<open>
  \<^verbatim>\<open>TEST_MODULES\<close> (lines 22 to 32) and \<^verbatim>\<open>all\<close> (lines 35 and 36), here \<open>all_tests\<close>
  since the logic has a constant of that name.
\<close>

definition TEST_MODULES :: "string list" where
  "TEST_MODULES =
     [''tortik_tests.pep8_test'',
      ''tortik_tests.import_test'',
      ''tortik_tests.debug_test'',
      ''tortik_tests.dumper_test'',
      ''tortik_tests.exceptions_test'',
      ''tortik_tests.make_request_test'',
      ''tortik_tests.util_test'',
      ''tortik_tests.postprocessor_test'',
      ''tortik_tests.preprocessor_test'']"

definition all_tests :: "environment \<Rightarrow> error + suite" where
  "all_tests env = defaultTestLoader env TEST_MODULES"

text \<open>
  \<^verbatim>\<open>tornado.testing.main\<close> parses the command line, which runs the option callbacks and
  then the parse callbacks, and, when the command line names no test, calls
  \<^verbatim>\<open>unittest.main\<close> with the default test \<^verbatim>\<open>all\<close> and the runner passed by \<^verbatim>\<open>main\<close> (line
  188): the suite is loaded, then run. The other keyword argument, \<^verbatim>\<open>warnings=False\<close>
  (line 187), keeps \<^verbatim>\<open>unittest.main\<close> from replacing the warning filters. An exception
  at any step leaves the function, and the later steps do not happen: the left summand
  is a run that ended with this exception, the right one the result of the tests, the
  output and the configured state.
\<close>

definition tornado_testing_main ::
  "environment \<Rightarrow> arg list \<Rightarrow> string \<Rightarrow> process \<Rightarrow> error + TestResult \<times> string \<times> process" where
  "tornado_testing_main env args stream p =
     (case parse_args env args (options_default, p) of
        Inl e \<Rightarrow> Inl e
      | Inr st \<Rightarrow>
          (case run_parse_callbacks env st of
             Inl e \<Rightarrow> Inl e
           | Inr p' \<Rightarrow>
               (case all_tests env of
                  Inl e \<Rightarrow> Inl e
                | Inr tests \<Rightarrow>
                    (case TornadoTextTestRunner_run (textwrap_fill env) (TextTestRunner_run env)
                            stream tests of
                       (result, stream') \<Rightarrow> Inr (result, stream', p')))))"

text \<open>
  \<^verbatim>\<open>main\<close> (lines 70 to 190): the warning filters, the level of the access logger, then
  the run.
\<close>

definition main_setup :: "process \<Rightarrow> process" where
  "main_setup p =
     p\<lparr>warnings_filters := main_filterwarnings (warnings_filters p),
       access_log_level := Some CRITICAL\<rparr>"

definition main ::
  "environment \<Rightarrow> arg list \<Rightarrow> string \<Rightarrow> process \<Rightarrow> error + TestResult \<times> string \<times> process" where
  "main env args stream p = tornado_testing_main env args stream (main_setup p)"

subsection \<open>The two loaders of \<^verbatim>\<open>unittest\<close>\<close>

text \<open>
  \<^verbatim>\<open>loadTestsFromNames\<close> loads the names one after the other, in the order of the list,
  and collects the tests. \<open>resolve\<close> is the loading of one name, with three outcomes:
  the tests of the module; the name is not found, with the \<^verbatim>\<open>ImportError\<close> of the import
  or the \<^verbatim>\<open>AttributeError\<close> of walking down the dotted name; or the import raised
  another exception (the code of the module raises when it is imported).

  What the loader does with a name that is not found depends on the version of
  Python. Before Python 3.5 the exception leaves the loader. From Python 3.5 on the
  loader catches these two exceptions and returns, in place of the tests of that name,
  one placeholder test that raises the error when it is run, and goes on with the next
  name. Another exception leaves the loader in every version.
\<close>

datatype loaded = Loaded suite | NotFound error | Raised error

fun loadTestsFromNames_raising :: "(string \<Rightarrow> loaded) \<Rightarrow> string list \<Rightarrow> error + suite" where
  "loadTestsFromNames_raising resolve [] = Inr []"
| "loadTestsFromNames_raising resolve (name # names) =
     (case resolve name of
        NotFound e \<Rightarrow> Inl e
      | Raised e \<Rightarrow> Inl e
      | Loaded tests \<Rightarrow>
          (case loadTestsFromNames_raising resolve names of
             Inl e \<Rightarrow> Inl e
           | Inr rest \<Rightarrow> Inr (tests @ rest)))"

fun loadTestsFromNames_placeholder :: "(string \<Rightarrow> loaded) \<Rightarrow> string list \<Rightarrow> error + suite" where
  "loadTestsFromNames_placeholder resolve [] = Inr []"
| "loadTestsFromNames_placeholder resolve (name # names) =
     (case (case resolve name of
              NotFound e \<Rightarrow> Inr [FailedTest name e]
            | Raised e \<Rightarrow> Inl e
            | Loaded tests \<Rightarrow> Inr tests) of
        Inl e \<Rightarrow> Inl e
      | Inr tests \<Rightarrow>
          (case loadTestsFromNames_placeholder resolve names of
             Inl e \<Rightarrow> Inl e
           | Inr rest \<Rightarrow> Inr (tests @ rest)))"

text \<open>
  What the loader of Python 3.5 and later puts into the suite for one name, when the
  import of the name does not raise: its tests, or the placeholder.
\<close>

fun tests_or_placeholder :: "(string \<Rightarrow> loaded) \<Rightarrow> string \<Rightarrow> suite" where
  "tests_or_placeholder resolve name =
     (case resolve name of
        Loaded tests \<Rightarrow> tests
      | NotFound e \<Rightarrow> [FailedTest name e]
      | Raised e \<Rightarrow> [])"

text \<open>
  Two sample imports. In the first every module but \<^verbatim>\<open>tortik_tests.util_test\<close> is found,
  with one test. In the second that module is found and raises \<^verbatim>\<open>ValueError\<close> when it
  is imported.
\<close>

definition sample_resolve :: "string \<Rightarrow> loaded" where
  "sample_resolve name =
     (if name = ''tortik_tests.util_test''
      then NotFound (ImportError ''No module named util_test'')
      else Loaded [TestCase (name @ ''.Test.test'')])"

definition sample_resolve_broken :: "string \<Rightarrow> loaded" where
  "sample_resolve_broken name =
     (if name = ''tortik_tests.util_test''
      then Raised (ValueError ''bad value in util_test'')
      else Loaded [TestCase (name @ ''.Test.test'')])"

subsection \<open>What a request makes of the configured defaults\<close>






subsection \<open>A sample environment\<close>

text \<open>
  An environment to evaluate the run in: a platform without a monotonic clock, the
  debug constants of the \<^verbatim>\<open>gc\<close> module of Python 3 and one of its functions, libraries
  that accept every implementation name and locale, a loader that finds one test in
  every module, and a runner that reports every test it is given.
\<close>

definition sample_gc :: "string \<Rightarrow> py_value option" where
  "sample_gc name =
     (if name = ''DEBUG_STATS'' then Some (PyInt 1)
      else if name = ''DEBUG_COLLECTABLE'' then Some (PyInt 2)
      else if name = ''DEBUG_UNCOLLECTABLE'' then Some (PyInt 4)
      else if name = ''DEBUG_SAVEALL'' then Some (PyInt 32)
      else if name = ''DEBUG_LEAK'' then Some (PyInt 38)
      else if name = ''collect'' then Some (PyObject ''collect'')
      else None)"

fun test_id :: "test \<Rightarrow> string" where
  "test_id (TestCase name) = name"
| "test_id (FailedTest name e) = name"

fun test_errors :: "test \<Rightarrow> (string \<times> string) list" where
  "test_errors (TestCase name) = []"
| "test_errors (FailedTest name e) = [(name, ''Failed to import test module'')]"

definition sample_suite_runner :: "suite \<Rightarrow> string \<Rightarrow> TestResult \<times> string" where
  "sample_suite_runner tests stream =
     (\<lparr>skipped = [], failures = [], errors = concat (map test_errors tests),
       testsRun = length tests\<rparr>,
      stream_write stream (concat (map (\<lambda>t. test_id t @ newline) tests)))"

definition sample_env :: environment where
  "sample_env =
     \<lparr>monotonic_time = None,
      gc_getattr = sample_gc,
      import_object = (\<lambda>base impl. None),
      IOLoop_check = (\<lambda>impl. None),
      setlocale = (\<lambda>x. None),
      defaultTestLoader = (\<lambda>names. Inr (map (\<lambda>n. TestCase (n @ ''.Test.test'')) names)),
      TextTestRunner_run = sample_suite_runner,
      textwrap_fill = (\<lambda>s. s)\<rparr>"

definition sample_process :: process where
  "sample_process =
     \<lparr>warnings_filters = [], access_log_level = None, AsyncHTTPClient_impl = None,
      HTTPServer_impl = None, Resolver_impl = None, IOLoop_impl = None, gc_debug = 0,
      lc_all = None, root_handlers = [[]]\<rparr>"

text \<open>The sample environment with each of the two loaders, on the sample import.\<close>

definition raising_env :: environment where
  "raising_env = sample_env\<lparr>defaultTestLoader := loadTestsFromNames_raising sample_resolve\<rparr>"

definition placeholder_env :: environment where
  "placeholder_env = sample_env\<lparr>defaultTestLoader := loadTestsFromNames_placeholder sample_resolve\<rparr>"

section \<open>Properties of \<^verbatim>\<open>LogCounter\<close>\<close>

lemma snd_handle_Cons:
  "snd (handle c (r # rs)) = snd (handle (snd (LogCounter_filter c r)) rs)"
  by (simp add: split_beta)

lemma fst_handle_Cons:
  "fst (handle c (r # rs)) =
     (if fst (LogCounter_filter c r) then [r] else []) @ fst (handle (snd (LogCounter_filter c r)) rs)"
  by (simp add: split_beta)

lemma handle_error_count:
  "error_count (snd (handle c rs)) =
     error_count c + int (length (filter (\<lambda>r. ERROR \<le> levelno r) rs))"
  by (induction rs arbitrary: c)
     (simp_all only: snd_handle_Cons, simp_all add: LogCounter_filter_def)

lemma handle_warning_count:
  "warning_count (snd (handle c rs)) =
     warning_count c + int (length (filter (\<lambda>r. WARNING \<le> levelno r \<and> levelno r < ERROR) rs))"
  by (induction rs arbitrary: c)
     (simp_all only: snd_handle_Cons, simp_all add: LogCounter_filter_def WARNING_def ERROR_def)

lemma levels_split:
  "length (filter (\<lambda>r. WARNING \<le> levelno r) rs) =
     length (filter (\<lambda>r. ERROR \<le> levelno r) rs)
       + length (filter (\<lambda>r. WARNING \<le> levelno r \<and> levelno r < ERROR) rs)"
  by (induction rs) (auto simp: WARNING_def ERROR_def)

lemma LogCounter_eqI:
  "warning_count a = warning_count b \<Longrightarrow> error_count a = error_count b \<Longrightarrow> (a::LogCounter) = b"
  by simp

lemma length_filter_mset:
  "mset xs = mset ys \<Longrightarrow> length (filter P xs) = length (filter P ys)"
proof -
  assume "mset xs = mset ys"
  then have "size (filter_mset P (mset xs)) = size (filter_mset P (mset ys))"
    by simp
  then show ?thesis
    by (simp only: mset_filter [symmetric] size_mset)
qed

lemma handle_permuted:
  "mset rs' = mset rs \<Longrightarrow> snd (handle c rs') = snd (handle c rs)"
  by (rule LogCounter_eqI)
     (simp_all add: handle_warning_count handle_error_count length_filter_mset [of rs' rs])

lemma handle_emitted: "fst (handle c rs) = rs"
  by (induction rs arbitrary: c)
     (simp_all only: fst_handle_Cons, simp_all add: LogCounter_filter_def)

text \<open>
  Claim C2. After any sequence of records observed by a fresh counter, \<^verbatim>\<open>error_count\<close>
  is the number of records at or above \<^verbatim>\<open>ERROR\<close> and \<^verbatim>\<open>warning_count\<close> the number of
  records at or above \<^verbatim>\<open>WARNING\<close> and below \<^verbatim>\<open>ERROR\<close>; a record below \<^verbatim>\<open>WARNING\<close>
  changes neither count of any counter; the two counts together are the number of
  records at or above \<^verbatim>\<open>WARNING\<close>; and the counts are the same for every order in
  which the records are emitted.
\<close>

theorem LogCounter_counts:
  "error_count (snd (handle LogCounter_init rs)) =
     int (length (filter (\<lambda>r. ERROR \<le> levelno r) rs))
   \<and> warning_count (snd (handle LogCounter_init rs)) =
     int (length (filter (\<lambda>r. WARNING \<le> levelno r \<and> levelno r < ERROR) rs))
   \<and> (levelno r < WARNING \<longrightarrow> snd (LogCounter_filter c r) = c)
   \<and> warning_count (snd (handle LogCounter_init rs)) + error_count (snd (handle LogCounter_init rs)) =
     int (length (filter (\<lambda>r. WARNING \<le> levelno r) rs))
   \<and> (mset rs' = mset rs \<longrightarrow> snd (handle c rs') = snd (handle c rs))"
proof (intro conjI impI)
  show "error_count (snd (handle LogCounter_init rs)) =
     int (length (filter (\<lambda>r. ERROR \<le> levelno r) rs))"
    by (simp add: handle_error_count LogCounter_init_def)
  show "warning_count (snd (handle LogCounter_init rs)) =
     int (length (filter (\<lambda>r. WARNING \<le> levelno r \<and> levelno r < ERROR) rs))"
    by (simp add: handle_warning_count LogCounter_init_def)
  show "snd (LogCounter_filter c r) = c" if "levelno r < WARNING"
    using that by (simp add: LogCounter_filter_def WARNING_def ERROR_def)
  show "warning_count (snd (handle LogCounter_init rs)) + error_count (snd (handle LogCounter_init rs)) =
     int (length (filter (\<lambda>r. WARNING \<le> levelno r) rs))"
    by (simp add: handle_warning_count handle_error_count levels_split LogCounter_init_def)
  show "snd (handle c rs') = snd (handle c rs)" if "mset rs' = mset rs"
    using that by (rule handle_permuted)
qed

theorem LogCounter_counts_witness:
  "levelno \<lparr>levelno = 20, msg = ''info''\<rparr> < WARNING
   \<and> snd (LogCounter_filter LogCounter_init \<lparr>levelno = 20, msg = ''info''\<rparr>) = LogCounter_init
   \<and> mset [\<lparr>levelno = 30, msg = ''w''\<rparr>, \<lparr>levelno = 40, msg = ''e''\<rparr>, \<lparr>levelno = 20, msg = ''i''\<rparr>]
       = mset [\<lparr>levelno = 40, msg = ''e''\<rparr>, \<lparr>levelno = 20, msg = ''i''\<rparr>, \<lparr>levelno = 30, msg = ''w''\<rparr>]
   \<and> snd (handle LogCounter_init
        [\<lparr>levelno = 30, msg = ''w''\<rparr>, \<lparr>levelno = 40, msg = ''e''\<rparr>, \<lparr>levelno = 20, msg = ''i''\<rparr>])
       = snd (handle LogCounter_init
        [\<lparr>levelno = 40, msg = ''e''\<rparr>, \<lparr>levelno = 20, msg = ''i''\<rparr>, \<lparr>levelno = 30, msg = ''w''\<rparr>])
   \<and> snd (handle LogCounter_init
        [\<lparr>levelno = 40, msg = ''e''\<rparr>, \<lparr>levelno = 20, msg = ''i''\<rparr>, \<lparr>levelno = 30, msg = ''w''\<rparr>])
       = \<lparr>warning_count = 1, error_count = 1\<rparr>"
  using LogCounter_counts
          [where c = LogCounter_init
             and rs = "[\<lparr>levelno = 40, msg = ''e''\<rparr>, \<lparr>levelno = 20, msg = ''i''\<rparr>, \<lparr>levelno = 30, msg = ''w''\<rparr>]"
             and r = "\<lparr>levelno = 20, msg = ''info''\<rparr>"
             and rs' = "[\<lparr>levelno = 30, msg = ''w''\<rparr>, \<lparr>levelno = 40, msg = ''e''\<rparr>, \<lparr>levelno = 20, msg = ''i''\<rparr>]"]
  by (simp add: LogCounter_filter_def LogCounter_init_def WARNING_def ERROR_def)

text \<open>
  Claim C8. \<^verbatim>\<open>filter\<close> returns \<^verbatim>\<open>True\<close> for every record, whatever its level, so the
  handler emits every record it is given, unchanged and in order.
\<close>

theorem LogCounter_filter_passes:
  "fst (LogCounter_filter c r) = True \<and> fst (handle c rs) = rs"
  by (simp add: handle_emitted) (simp add: LogCounter_filter_def)

section \<open>Properties of the warning filters\<close>

lemma issubclass_Warning: "issubclass c Warning"
  by (induction c) auto

lemma issubclass_refl: "issubclass c c"
  by (cases c) auto

lemma blanket_matches: "item_matches rx (rule Error [] Warning []) ev"
  by (simp add: item_matches_def rule_def issubclass_Warning)

lemma classify_remove1:
  "\<not> item_matches rx x ev \<Longrightarrow> classify rx (remove1 x fs) ev = classify rx fs ev"
  by (induction fs) auto

lemma classify_filterwarnings:
  "classify rx (filterwarnings x fs) ev =
     (if item_matches rx x ev then action x else classify rx fs ev)"
  by (simp add: filterwarnings_def classify_remove1)

lemma classify_insert_only:
  "classify rx (item # fs) ev = classify rx (filterwarnings item fs) ev"
  by (simp add: classify_filterwarnings)

lemma register_all_snoc:
  "register_all fs (rs @ [r]) = filterwarnings r (register_all fs rs)"
  by (simp add: register_all_def)

lemma classify_register_all:
  "classify rx (register_all fs rs) ev =
     (case find (\<lambda>r. item_matches rx r ev) (rev rs) of
        Some r \<Rightarrow> action r
      | None \<Rightarrow> classify rx fs ev)"
  by (induction rs rule: rev_induct)
     (simp_all add: register_all_snoc classify_filterwarnings, simp add: register_all_def)

text \<open>The last element of a list that satisfies \<open>P\<close> is the first one of the reversed list.\<close>

lemma find_rev_last:
  assumes "i < length rs" "P (rs ! i)" "\<forall>j. i < j \<and> j < length rs \<longrightarrow> \<not> P (rs ! j)"
  shows "find P (rev rs) = Some (rs ! i)"
  using assms
proof (induction rs arbitrary: i rule: rev_induct)
  case Nil
  then show ?case by simp
next
  case (snoc x xs)
  show ?case
  proof (cases "i = length xs")
    case True
    with snoc.prems show ?thesis by simp
  next
    case False
    with snoc.prems have i: "i < length xs" by simp
    from snoc.prems(3) have "\<not> P ((xs @ [x]) ! length xs)"
      using i by (metis length_append_singleton lessI)
    then have nx: "\<not> P x" by simp
    have "\<forall>j. i < j \<and> j < length xs \<longrightarrow> \<not> P (xs ! j)"
    proof (intro allI impI)
      fix j assume j: "i < j \<and> j < length xs"
      then have "\<not> P ((xs @ [x]) ! j)" using snoc.prems(3) by simp
      with j show "\<not> P (xs ! j)" by (simp add: nth_append)
    qed
    moreover have "P (xs ! i)" using snoc.prems(2) i by (simp add: nth_append)
    ultimately have "find P (rev xs) = Some (xs ! i)" using snoc.IH i by blast
    with nx i show ?thesis by (simp add: nth_append)
  qed
qed

lemma find_rev_none: "\<forall>r \<in> set rs. \<not> P r \<Longrightarrow> find P (rev rs) = None"
  by (simp add: find_None_iff)

lemma find_snoc:
  "find P (xs @ [x]) = (case find P xs of Some y \<Rightarrow> Some y | None \<Rightarrow> if P x then Some x else None)"
  by (induction xs) auto

lemma main_rules_blanket: "main_rules = rule Error [] Warning [] # tl main_rules"
  by (simp add: main_rules_def)

lemma find_rev_blanket:
  "find (\<lambda>r. item_matches rx r ev) (rev (rule Error [] Warning [] # rs)) =
     (case find (\<lambda>r. item_matches rx r ev) (rev rs) of
        Some r \<Rightarrow> Some r
      | None \<Rightarrow> Some (rule Error [] Warning []))"
  by (simp add: find_snoc blanket_matches split: option.splits)

lemma classify_after_blanket:
  "classify rx (register_all fs (rule Error [] Warning [] # rs)) ev =
     (case find (\<lambda>r. item_matches rx r ev) (rev rs) of
        Some r \<Rightarrow> action r
      | None \<Rightarrow> Error)"
  by (simp only: classify_register_all find_rev_blanket)
     (simp add: rule_def split: option.splits)

text \<open>
  Claim C1. For every sequence \<open>rules\<close> of registrations, on top of any earlier
  filter list, and every warning: the action is that of the last registered rule that
  matches the warning (category, module pattern, message pattern and line); when no
  registered rule matches, the earlier list decides, and with no earlier filter that
  is \<^verbatim>\<open>defaultaction\<close>. After a blanket rule \<^verbatim>\<open>filterwarnings("error")\<close>, a warning that
  no later rule matches gets the action \<^verbatim>\<open>error\<close>; this is the case of \<^verbatim>\<open>main\<close>, whose
  first registration is the blanket rule.
\<close>

theorem classify_last_registered:
  "(\<forall>i. i < length rules \<and> item_matches rx (rules ! i) ev
          \<and> (\<forall>j. i < j \<and> j < length rules \<longrightarrow> \<not> item_matches rx (rules ! j) ev)
        \<longrightarrow> classify rx (register_all filters rules) ev = action (rules ! i))
   \<and> ((\<forall>r \<in> set rules. \<not> item_matches rx r ev)
        \<longrightarrow> classify rx (register_all filters rules) ev = classify rx filters ev
          \<and> classify rx (register_all [] rules) ev = defaultaction
          \<and> classify rx (register_all filters (rule Error [] Warning [] # rules)) ev = Error)
   \<and> classify rx (main_filterwarnings filters) ev =
       (case find (\<lambda>r. item_matches rx r ev) (rev (tl main_rules)) of
          Some r \<Rightarrow> action r
        | None \<Rightarrow> Error)"
proof (intro conjI allI impI)
  fix i
  assume "i < length rules \<and> item_matches rx (rules ! i) ev
          \<and> (\<forall>j. i < j \<and> j < length rules \<longrightarrow> \<not> item_matches rx (rules ! j) ev)"
  then have "find (\<lambda>r. item_matches rx r ev) (rev rules) = Some (rules ! i)"
    by (intro find_rev_last) simp_all
  then show "classify rx (register_all filters rules) ev = action (rules ! i)"
    by (simp add: classify_register_all)
next
  assume none: "\<forall>r \<in> set rules. \<not> item_matches rx r ev"
  then have f: "find (\<lambda>r. item_matches rx r ev) (rev rules) = None"
    by (rule find_rev_none)
  from f show "classify rx (register_all filters rules) ev = classify rx filters ev"
    by (simp add: classify_register_all)
  from f show "classify rx (register_all [] rules) ev = defaultaction"
    by (simp add: classify_register_all)
  from f show "classify rx (register_all filters (rule Error [] Warning [] # rules)) ev = Error"
    by (simp add: classify_after_blanket)
next
  have "main_filterwarnings filters = register_all filters (rule Error [] Warning [] # tl main_rules)"
    using main_rules_blanket by (simp add: main_filterwarnings_def)
  then show "classify rx (main_filterwarnings filters) ev =
       (case find (\<lambda>r. item_matches rx r ev) (rev (tl main_rules)) of
          Some r \<Rightarrow> action r
        | None \<Rightarrow> Error)"
    by (simp only: classify_after_blanket)
qed

lemmas filter_eval =
  main_filterwarnings_def register_all_def main_rules_def rule_def filterwarnings_def
  item_matches_def gen_task_warning_def app_deprecation_def user_warning_def
  DeprecationWarning_def PendingDeprecationWarning_def ImportWarning_def BytesWarning_def
  re_match_fragment_def tornado_modules_def twisted_modules_def is_alnum_def lower_def
  defaultaction_def

theorem classify_last_registered_witness:
  "4 < length main_rules
   \<and> item_matches re_match_fragment (main_rules ! 4) gen_task_warning
   \<and> list_all (\<lambda>j. \<not> item_matches re_match_fragment (main_rules ! j) gen_task_warning) [5 ..< length main_rules]
   \<and> classify re_match_fragment (register_all [] main_rules) gen_task_warning = Ignore
   \<and> action (main_rules ! 4) = Ignore
   \<and> list_all (\<lambda>r. \<not> item_matches re_match_fragment r user_warning) (tl main_rules)
   \<and> classify re_match_fragment (register_all [] (tl main_rules)) user_warning = Default
   \<and> classify re_match_fragment (main_filterwarnings []) user_warning = Error
   \<and> classify re_match_fragment (main_filterwarnings []) app_deprecation = Ignore"
proof -
  have len: "length main_rules = 13"
    by (simp add: main_rules_def)
  have m4: "item_matches re_match_fragment (main_rules ! 4) gen_task_warning"
    by (simp add: filter_eval)
  have later: "list_all (\<lambda>j. \<not> item_matches re_match_fragment (main_rules ! j) gen_task_warning) [5 ..< length main_rules]"
    unfolding len by (simp add: upt_rec filter_eval)
  have after: "\<forall>j. 4 < j \<and> j < length main_rules \<longrightarrow> \<not> item_matches re_match_fragment (main_rules ! j) gen_task_warning"
    using later by (auto simp: list_all_iff)
  have none: "\<forall>r \<in> set (tl main_rules). \<not> item_matches re_match_fragment r user_warning"
    by (simp add: filter_eval)
  have a4: "action (main_rules ! 4) = Ignore"
    by (simp add: filter_eval)
  have app: "find (\<lambda>r. item_matches re_match_fragment r app_deprecation) (rev (tl main_rules))
      = Some (rule Ignore [] DeprecationWarning [])"
    by (simp add: filter_eval)
  from classify_last_registered [of main_rules re_match_fragment gen_task_warning "[]"] m4 after len
  have c1: "classify re_match_fragment (register_all [] main_rules) gen_task_warning = action (main_rules ! 4)"
    by simp
  from classify_last_registered [of "tl main_rules" re_match_fragment user_warning "[]"] none
  have c2: "classify re_match_fragment (register_all [] (tl main_rules)) user_warning = defaultaction"
    and c3: "classify re_match_fragment (main_filterwarnings []) user_warning = Error"
    using main_rules_blanket by (simp_all add: main_filterwarnings_def)
  from classify_last_registered [of main_rules re_match_fragment app_deprecation "[]"] app
  have c4: "classify re_match_fragment (main_filterwarnings []) app_deprecation = Ignore"
    by (simp add: rule_def)
  from len m4 later c1 a4 none c2 c3 c4 show ?thesis
    by (simp add: list_all_iff defaultaction_def)
qed

text \<open>
  Claim C3. Register \<open>R1\<close> (error, category \<open>A\<close>, any module, any message) and then \<open>R2\<close>
  (ignore, category \<open>A\<close>, module pattern \<open>M\<close>, any message), on top of any filter list.
  A warning of category \<open>A\<close> (or of a subclass) is then ignored when its module matches
  \<open>M\<close>, and raised as an error when its module does not.
\<close>

theorem module_rule_overrides_category_rule:
  assumes "issubclass (w_category ev) A"
  shows "classify rx (filterwarnings (rule Ignore [] A M) (filterwarnings (rule Error [] A []) filters)) ev
           = (if M = [] \<or> rx False M (w_module ev) then Ignore else Error)"
  using assms by (simp add: classify_filterwarnings item_matches_def rule_def)

theorem module_rule_overrides_category_rule_witness:
  "issubclass (w_category gen_task_warning) DeprecationWarning
   \<and> issubclass (w_category app_deprecation) DeprecationWarning
   \<and> re_match_fragment False tornado_modules (w_module gen_task_warning)
   \<and> \<not> re_match_fragment False tornado_modules (w_module app_deprecation)
   \<and> classify re_match_fragment
        (filterwarnings (rule Ignore [] DeprecationWarning tornado_modules)
          (filterwarnings (rule Error [] DeprecationWarning []) [])) gen_task_warning = Ignore
   \<and> classify re_match_fragment
        (filterwarnings (rule Ignore [] DeprecationWarning tornado_modules)
          (filterwarnings (rule Error [] DeprecationWarning []) [])) app_deprecation = Error"
  using module_rule_overrides_category_rule
          [of gen_task_warning DeprecationWarning re_match_fragment tornado_modules "[]"]
        module_rule_overrides_category_rule
          [of app_deprecation DeprecationWarning re_match_fragment tornado_modules "[]"]
  by (simp add: filter_eval)

section \<open>Properties of \<^verbatim>\<open>TornadoTextTestRunner\<close>\<close>

lemma count_list_distinct: "distinct xs \<Longrightarrow> x \<in> set xs \<Longrightarrow> count_list xs x = 1"
  by (induction xs) (auto simp: count_list_0_iff)

text \<open>
  Claim C4. When the result of the run has skipped tests, the wrapper returns the
  result and leaves on the stream the standard output followed by the digest: the
  sentence made of the skip reasons, wrapped by \<^verbatim>\<open>textwrap.fill\<close> into one paragraph,
  and a newline. The reasons in the sentence are exactly the reasons of the skipped
  tests, each listed once whatever the number of tests and modules that share it, in
  ascending lexicographic order.
\<close>

theorem skip_digest:
  assumes "super_run test stream = (result, out)" and "skipped result \<noteq> []"
  shows "\<exists>reasons.
           TornadoTextTestRunner_run fill super_run stream test =
             (result,
              out @ fill (''Some tests were skipped because: '' @ join '', '' reasons) @ newline)
           \<and> set reasons = snd ` set (skipped result)
           \<and> (\<forall>reason \<in> snd ` set (skipped result). count_list reasons reason = 1)
           \<and> sorted reasons \<and> distinct reasons"
proof (intro exI conjI)
  let ?rs = "sorted_list_of_set (set (map snd (skipped result)))"
  show "TornadoTextTestRunner_run fill super_run stream test =
             (result, out @ fill (''Some tests were skipped because: '' @ join '', '' ?rs) @ newline)"
    using assms by (simp add: TornadoTextTestRunner_run_def stream_write_def)
  show "set ?rs = snd ` set (skipped result)" by simp
  show "\<forall>reason \<in> snd ` set (skipped result). count_list ?rs reason = 1"
    by (intro ballI count_list_distinct) simp_all
  show "sorted ?rs" by simp
  show "distinct ?rs" by simp
qed

lemma run_eval:
  "TornadoTextTestRunner_run fill super_run stream test =
     (case super_run test stream of
        (result, stream1) \<Rightarrow>
          if skipped result \<noteq> [] then
            (result, stream1 @ fill (''Some tests were skipped because: ''
                         @ join '', '' (sort (remdups (map snd (skipped result))))) @ newline)
          else (result, stream1))"
  by (simp only: TornadoTextTestRunner_run_def stream_write_def Let_def
        sorted_list_of_set_sort_remdups append_assoc)

theorem skip_digest_witness:
  "sample_runner result_same_reason [] = (result_same_reason, ''Ran tests'' @ newline)
   \<and> skipped result_same_reason \<noteq> []
   \<and> TornadoTextTestRunner_run (\<lambda>s. s) sample_runner [] result_same_reason =
       (result_same_reason,
        ''Ran tests'' @ newline @ ''Some tests were skipped because: no network'' @ newline)
   \<and> TornadoTextTestRunner_run (\<lambda>s. s) sample_runner [] result_two_reasons =
       (result_two_reasons,
        ''Ran tests'' @ newline @ ''Some tests were skipped because: curl missing, no network'' @ newline)"
  using skip_digest [of sample_runner result_same_reason "[]" result_same_reason
          "''Ran tests'' @ newline" "\<lambda>s. s"]
  by (simp add: run_eval sample_runner_def stream_write_def result_same_reason_def result_two_reasons_def)

text \<open>
  Claim C7. The wrapper returns the result that the underlying runner returned,
  unchanged, and when that result has no skipped test the stream is as the underlying
  runner left it.
\<close>

theorem run_returns_result:
  "fst (TornadoTextTestRunner_run fill super_run stream test) = fst (super_run test stream)
   \<and> (skipped (fst (super_run test stream)) = []
        \<longrightarrow> snd (TornadoTextTestRunner_run fill super_run stream test) = snd (super_run test stream))"
  by (simp add: TornadoTextTestRunner_run_def Let_def split: prod.splits)

theorem run_returns_result_witness:
  "skipped (fst (sample_runner result_no_skips ''x'')) = []
   \<and> TornadoTextTestRunner_run (\<lambda>s. s) sample_runner ''x'' result_no_skips =
       sample_runner result_no_skips ''x''
   \<and> fst (TornadoTextTestRunner_run (\<lambda>s. s) sample_runner ''x'' result_two_reasons) = result_two_reasons"
  using run_returns_result [of "\<lambda>s. s" sample_runner "''x''" result_no_skips]
        run_returns_result [of "\<lambda>s. s" sample_runner "''x''" result_two_reasons]
  by (simp add: sample_runner_def result_no_skips_def prod_eq_iff)

section \<open>Properties of the option callbacks and of the run\<close>

lemma reduce_from_or_ints:
  "reduce_from operator_or (PyInt a) (map (\<lambda>n. Inr (PyInt n)) ns) = Inr (PyInt (foldl (OR) a ns))"
  by (induction ns arbitrary: a) simp_all

lemma getattr_gc_ints:
  "map (gc_getattr env) vs = map (\<lambda>n. Some (PyInt n)) ns
   \<Longrightarrow> map (getattr_gc env) vs = map (\<lambda>n. Inr (PyInt n)) ns"
proof (induction vs arbitrary: ns)
  case Nil
  then show ?case by simp
next
  case (Cons v vs)
  then obtain n ns' where ns: "ns = n # ns'" by (cases ns) auto
  with Cons.prems have "gc_getattr env v = Some (PyInt n)"
    and "map (gc_getattr env) vs = map (\<lambda>n. Some (PyInt n)) ns'" by simp_all
  with Cons.IH ns show ?case by (simp add: getattr_gc_def)
qed

text \<open>The bitwise or of flags that fit 31 bits fits 31 bits.\<close>

lemma foldl_or_range:
  "0 \<le> a \<Longrightarrow> a < 2 ^ 31 \<Longrightarrow> \<forall>k \<in> set ns. 0 \<le> k \<and> k < 2 ^ 31
   \<Longrightarrow> 0 \<le> foldl (OR) (a::int) ns \<and> foldl (OR) a ns < 2 ^ 31"
proof (induction ns arbitrary: a)
  case Nil
  then show ?case by simp
next
  case (Cons k ns)
  then have k: "0 \<le> k" "k < 2 ^ 31" by simp_all
  have "0 \<le> a OR k" using Cons.prems(1) k by simp
  moreover have "a OR k < 2 ^ 31" using Cons.prems(1,2) k by (intro OR_upper) simp_all
  ultimately show ?case using Cons by simp
qed

text \<open>
  Claim C9. For a non-empty list of names \<open>v # vs\<close> that name the integer constants
  \<open>n # ns\<close> of the \<^verbatim>\<open>gc\<close> module (flags: not negative, within the C \<^verbatim>\<open>int\<close>), the callback
  of \<^verbatim>\<open>debug_gc\<close> installs as debug flags the left fold of bitwise or over the constants,
  starting from the first.
\<close>

theorem debug_gc_flags:
  assumes "map (gc_getattr env) (v # vs) = map (\<lambda>k. Some (PyInt k)) (n # ns)"
      and "\<forall>k \<in> set (n # ns). 0 \<le> k \<and> k < 2 ^ 31"
  shows "debug_gc_callback env (v # vs) p = Inr (p\<lparr>gc_debug := foldl (OR) n ns\<rparr>)"
proof -
  from assms(1) have "map (getattr_gc env) (v # vs) = map (\<lambda>k. Inr (PyInt k)) (n # ns)"
    by (rule getattr_gc_ints)
  then have r: "reduce operator_or (map (getattr_gc env) (v # vs)) = Inr (PyInt (foldl (OR) n ns))"
    by (simp add: reduce_from_or_ints)
  from assms(2) have "0 \<le> foldl (OR) n ns \<and> foldl (OR) n ns < 2 ^ 31"
    by (intro foldl_or_range) simp_all
  with r show ?thesis
    by (simp add: debug_gc_callback_def gc_set_debug_def)
qed

theorem debug_gc_flags_witness:
  "map (gc_getattr sample_env) [''DEBUG_STATS'', ''DEBUG_COLLECTABLE'', ''DEBUG_SAVEALL'']
     = map (\<lambda>k. Some (PyInt k)) [1, 2, 32]
   \<and> list_all (\<lambda>k. 0 \<le> k \<and> k < 2 ^ 31) [1, 2, 32 :: int]
   \<and> debug_gc_callback sample_env [''DEBUG_STATS'', ''DEBUG_COLLECTABLE'', ''DEBUG_SAVEALL'']
        sample_process = Inr (sample_process\<lparr>gc_debug := 35\<rparr>)"
  using debug_gc_flags [of sample_env "''DEBUG_STATS''" "[''DEBUG_COLLECTABLE'', ''DEBUG_SAVEALL'']"
          1 "[2, 32]" sample_process]
  by (simp add: sample_env_def sample_gc_def)

lemma configure_ioloop_no_clock:
  "monotonic_time env = None \<Longrightarrow> ioloop_time_monotonic opts
   \<Longrightarrow> configure_ioloop opts env p = Inl (RuntimeError ''monotonic clock not found'')"
  by (simp add: configure_ioloop_def)

text \<open>
  Claim C5. When the option \<^verbatim>\<open>ioloop_time_monotonic\<close> is true and the platform has no
  monotonic clock, \<^verbatim>\<open>configure_ioloop\<close> raises \<^verbatim>\<open>RuntimeError\<close>; it is a parse callback,
  so a run whose command line parses to such options ends with this exception, before
  the suite is loaded or run.
\<close>

theorem monotonic_clock_missing:
  assumes "monotonic_time env = None" and "ioloop_time_monotonic opts"
  shows "configure_ioloop opts env p = Inl (RuntimeError ''monotonic clock not found'')
         \<and> (parse_args env args (options_default, main_setup p0) = Inr (opts, p)
              \<longrightarrow> main env args stream p0 = Inl (RuntimeError ''monotonic clock not found''))"
  using assms
  by (simp add: configure_ioloop_no_clock main_def tornado_testing_main_def run_parse_callbacks_def)

theorem monotonic_clock_missing_witness:
  "monotonic_time sample_env = None
   \<and> parse_args sample_env [Arg_ioloop ''tornado.platform.asyncio.AsyncIOLoop'', Arg_ioloop_time_monotonic True]
        (options_default, main_setup sample_process)
       = Inr (options_default\<lparr>ioloop := Some ''tornado.platform.asyncio.AsyncIOLoop'',
                               ioloop_time_monotonic := True\<rparr>, main_setup sample_process)
   \<and> main sample_env [Arg_ioloop ''tornado.platform.asyncio.AsyncIOLoop'', Arg_ioloop_time_monotonic True]
        [] sample_process = Inl (RuntimeError ''monotonic clock not found'')"
  using monotonic_clock_missing [of sample_env
          "options_default\<lparr>ioloop := Some ''tornado.platform.asyncio.AsyncIOLoop'',
                               ioloop_time_monotonic := True\<rparr>"
          "main_setup sample_process"
          "[Arg_ioloop ''tornado.platform.asyncio.AsyncIOLoop'', Arg_ioloop_time_monotonic True]"
          sample_process "[]"]
  by (simp add: sample_env_def)









lemma main_load_error:
  "defaultTestLoader env TEST_MODULES = Inl e \<Longrightarrow> \<exists>e'. main env args stream p = Inl e'"
  by (simp add: main_def tornado_testing_main_def all_tests_def split: sum.splits)

lemma main_load_error_exact:
  "defaultTestLoader env TEST_MODULES = Inl e
   \<Longrightarrow> parse_args env args (options_default, main_setup p) = Inr st
   \<Longrightarrow> run_parse_callbacks env st = Inr p'
   \<Longrightarrow> main env args stream p = Inl e"
  by (simp add: main_def tornado_testing_main_def all_tests_def)

lemma main_runs_loaded_suite:
  "defaultTestLoader env TEST_MODULES = Inr tests
   \<Longrightarrow> parse_args env args (options_default, main_setup p) = Inr st
   \<Longrightarrow> run_parse_callbacks env st = Inr p'
   \<Longrightarrow> main env args stream p =
        (case TornadoTextTestRunner_run (textwrap_fill env) (TextTestRunner_run env) stream tests of
           (result, stream') \<Rightarrow> Inr (result, stream', p'))"
  by (simp add: main_def tornado_testing_main_def all_tests_def)

lemma raising_loader_raises:
  "name \<in> set names \<Longrightarrow> \<forall>tests. resolve name \<noteq> Loaded tests
   \<Longrightarrow> \<exists>e'. loadTestsFromNames_raising resolve names = Inl e'"
  by (induction names) (auto split: sum.splits loaded.splits)

lemma placeholder_loader_raises:
  "name \<in> set names \<Longrightarrow> resolve name = Raised e
   \<Longrightarrow> \<exists>e'. loadTestsFromNames_placeholder resolve names = Inl e'"
  by (induction names) (auto split: sum.splits loaded.splits)

lemma placeholder_loader_suite:
  "\<forall>name \<in> set names. \<forall>e. resolve name \<noteq> Raised e
   \<Longrightarrow> loadTestsFromNames_placeholder resolve names =
         Inr (concat (map (tests_or_placeholder resolve) names))"
  by (induction names) (auto split: sum.splits loaded.splits)

text \<open>
  Claim C6 says that a name of \<^verbatim>\<open>TEST_MODULES\<close> that does not resolve makes the run fail
  before any test is executed. \<^verbatim>\<open>all\<close> hands the list to the loader and does nothing
  else, so this is as true as it is of the loader. With the loader of Python 3.5 and
  later it fails: \<^verbatim>\<open>tortik_tests.util_test\<close> is not found, \<^verbatim>\<open>main\<close> returns a result,
  nine tests were run, the first of them in \<^verbatim>\<open>tortik_tests.pep8_test\<close>, and the module
  that was not found is one error of the result.
\<close>

theorem load_error_counterexample:
  "''tortik_tests.util_test'' \<in> set TEST_MODULES
   \<and> sample_resolve ''tortik_tests.util_test'' = NotFound (ImportError ''No module named util_test'')
   \<and> defaultTestLoader placeholder_env = loadTestsFromNames_placeholder sample_resolve
   \<and> (case main placeholder_env [] [] sample_process of
         Inl e \<Rightarrow> None
       | Inr (result, out, p) \<Rightarrow> Some (testsRun result, errors result, take 33 out))
       = Some (9, [(''tortik_tests.util_test'', ''Failed to import test module'')],
               ''tortik_tests.pep8_test.Test.test'' @ newline)"
  by (simp add: placeholder_env_def sample_env_def sample_resolve_def TEST_MODULES_def
        main_def main_setup_def tornado_testing_main_def all_tests_def run_parse_callbacks_def
        configure_ioloop_def options_default_def truthy_def add_log_counter_def sample_process_def
        TornadoTextTestRunner_run_def sample_suite_runner_def stream_write_def newline_def)

text \<open>
  Claim C6, amended. When the loader raises on \<^verbatim>\<open>TEST_MODULES\<close>, \<^verbatim>\<open>main\<close> ends with an
  exception and no test is run; it is the loader's exception when the command line and
  the parse callbacks went through. The loader of Python before 3.5 raises when any
  name of the list does not load. The loader of Python 3.5 and later raises when the
  import of a name raises an exception other than the two it catches; otherwise it
  returns, in the order of the names, the tests of every name that is found and one
  placeholder for every name that is not, and \<^verbatim>\<open>main\<close> hands exactly this suite to the
  runner: the tests of the other modules are run, and the result is the runner's.
\<close>

theorem load_error_by_loader:
  "(defaultTestLoader env TEST_MODULES = Inl e \<longrightarrow> (\<exists>e'. main env args stream p = Inl e'))
   \<and> (defaultTestLoader env TEST_MODULES = Inl e
        \<and> parse_args env args (options_default, main_setup p) = Inr st
        \<and> run_parse_callbacks env st = Inr p'
      \<longrightarrow> main env args stream p = Inl e)
   \<and> (name \<in> set names \<and> (\<forall>tests. resolve name \<noteq> Loaded tests)
      \<longrightarrow> (\<exists>e'. loadTestsFromNames_raising resolve names = Inl e'))
   \<and> (name \<in> set names \<and> resolve name = Raised e
      \<longrightarrow> (\<exists>e'. loadTestsFromNames_placeholder resolve names = Inl e'))
   \<and> ((\<forall>name \<in> set names. \<forall>e. resolve name \<noteq> Raised e)
      \<longrightarrow> loadTestsFromNames_placeholder resolve names =
            Inr (concat (map (tests_or_placeholder resolve) names)))
   \<and> (defaultTestLoader env = loadTestsFromNames_placeholder resolve
        \<and> (\<forall>name \<in> set TEST_MODULES. \<forall>e. resolve name \<noteq> Raised e)
        \<and> parse_args env args (options_default, main_setup p) = Inr st
        \<and> run_parse_callbacks env st = Inr p'
      \<longrightarrow> main env args stream p =
            (case TornadoTextTestRunner_run (textwrap_fill env) (TextTestRunner_run env) stream
                    (concat (map (tests_or_placeholder resolve) TEST_MODULES)) of
               (result, stream') \<Rightarrow> Inr (result, stream', p')))"
proof (intro conjI impI)
  assume "defaultTestLoader env TEST_MODULES = Inl e"
  then show "\<exists>e'. main env args stream p = Inl e'" by (rule main_load_error)
next
  assume "defaultTestLoader env TEST_MODULES = Inl e
        \<and> parse_args env args (options_default, main_setup p) = Inr st
        \<and> run_parse_callbacks env st = Inr p'"
  then show "main env args stream p = Inl e" by (simp add: main_load_error_exact)
next
  assume "name \<in> set names \<and> (\<forall>tests. resolve name \<noteq> Loaded tests)"
  then show "\<exists>e'. loadTestsFromNames_raising resolve names = Inl e'"
    using raising_loader_raises by blast
next
  assume "name \<in> set names \<and> resolve name = Raised e"
  then show "\<exists>e'. loadTestsFromNames_placeholder resolve names = Inl e'"
    using placeholder_loader_raises by blast
next
  assume "\<forall>name \<in> set names. \<forall>e. resolve name \<noteq> Raised e"
  then show "loadTestsFromNames_placeholder resolve names =
            Inr (concat (map (tests_or_placeholder resolve) names))"
    by (rule placeholder_loader_suite)
next
  assume a: "defaultTestLoader env = loadTestsFromNames_placeholder resolve
        \<and> (\<forall>name \<in> set TEST_MODULES. \<forall>e. resolve name \<noteq> Raised e)
        \<and> parse_args env args (options_default, main_setup p) = Inr st
        \<and> run_parse_callbacks env st = Inr p'"
  then have l: "defaultTestLoader env TEST_MODULES =
      Inr (concat (map (tests_or_placeholder resolve) TEST_MODULES))"
    by (simp add: placeholder_loader_suite)
  from a have pa: "parse_args env args (options_default, main_setup p) = Inr st"
    and cb: "run_parse_callbacks env st = Inr p'" by blast+
  from l pa cb show "main env args stream p =
            (case TornadoTextTestRunner_run (textwrap_fill env) (TextTestRunner_run env) stream
                    (concat (map (tests_or_placeholder resolve) TEST_MODULES)) of
               (result, stream') \<Rightarrow> Inr (result, stream', p'))"
    by (rule main_runs_loaded_suite)
qed

theorem load_error_by_loader_witness:
  "defaultTestLoader raising_env TEST_MODULES = Inl (ImportError ''No module named util_test'')
   \<and> parse_args raising_env [] (options_default, main_setup sample_process)
       = Inr (options_default, main_setup sample_process)
   \<and> run_parse_callbacks raising_env (options_default, main_setup sample_process)
       = Inr ((main_setup sample_process)\<lparr>root_handlers := [[LogCounter_init]]\<rparr>)
   \<and> main raising_env [] [] sample_process = Inl (ImportError ''No module named util_test'')
   \<and> ''tortik_tests.util_test'' \<in> set TEST_MODULES
   \<and> sample_resolve ''tortik_tests.util_test'' = NotFound (ImportError ''No module named util_test'')
   \<and> loadTestsFromNames_raising sample_resolve TEST_MODULES
       = Inl (ImportError ''No module named util_test'')
   \<and> sample_resolve_broken ''tortik_tests.util_test'' = Raised (ValueError ''bad value in util_test'')
   \<and> loadTestsFromNames_placeholder sample_resolve_broken TEST_MODULES
       = Inl (ValueError ''bad value in util_test'')
   \<and> list_all (\<lambda>name. case sample_resolve name of Raised e \<Rightarrow> False | _ \<Rightarrow> True) TEST_MODULES
   \<and> loadTestsFromNames_placeholder sample_resolve TEST_MODULES =
       Inr [TestCase ''tortik_tests.pep8_test.Test.test'',
            TestCase ''tortik_tests.import_test.Test.test'',
            TestCase ''tortik_tests.debug_test.Test.test'',
            TestCase ''tortik_tests.dumper_test.Test.test'',
            TestCase ''tortik_tests.exceptions_test.Test.test'',
            TestCase ''tortik_tests.make_request_test.Test.test'',
            FailedTest ''tortik_tests.util_test'' (ImportError ''No module named util_test''),
            TestCase ''tortik_tests.postprocessor_test.Test.test'',
            TestCase ''tortik_tests.preprocessor_test.Test.test'']
   \<and> defaultTestLoader placeholder_env = loadTestsFromNames_placeholder sample_resolve
   \<and> run_parse_callbacks placeholder_env (options_default, main_setup sample_process)
       = Inr ((main_setup sample_process)\<lparr>root_handlers := [[LogCounter_init]]\<rparr>)
   \<and> main placeholder_env [] [] sample_process =
       (case TornadoTextTestRunner_run (\<lambda>s. s) sample_suite_runner []
               (concat (map (tests_or_placeholder sample_resolve) TEST_MODULES)) of
          (result, stream') \<Rightarrow>
            Inr (result, stream', (main_setup sample_process)\<lparr>root_handlers := [[LogCounter_init]]\<rparr>))"
  using load_error_by_loader
          [where env = raising_env and e = "ImportError ''No module named util_test''"
             and args = "[]" and stream = "[]" and p = sample_process
             and st = "(options_default, main_setup sample_process)"
             and p' = "(main_setup sample_process)\<lparr>root_handlers := [[LogCounter_init]]\<rparr>"
             and names = TEST_MODULES and name = "''tortik_tests.util_test''"
             and resolve = sample_resolve]
        load_error_by_loader
          [where env = placeholder_env and e = "ValueError ''bad value in util_test''"
             and args = "[]" and stream = "[]" and p = sample_process
             and st = "(options_default, main_setup sample_process)"
             and p' = "(main_setup sample_process)\<lparr>root_handlers := [[LogCounter_init]]\<rparr>"
             and names = TEST_MODULES and name = "''tortik_tests.util_test''"
             and resolve = sample_resolve_broken]
        load_error_by_loader
          [where env = placeholder_env and e = "ImportError ''No module named util_test''"
             and args = "[]" and stream = "[]" and p = sample_process
             and st = "(options_default, main_setup sample_process)"
             and p' = "(main_setup sample_process)\<lparr>root_handlers := [[LogCounter_init]]\<rparr>"
             and names = TEST_MODULES and name = "''tortik_tests.util_test''"
             and resolve = sample_resolve]
  by (simp add: raising_env_def placeholder_env_def sample_env_def sample_resolve_def
        sample_resolve_broken_def TEST_MODULES_def
        run_parse_callbacks_def configure_ioloop_def options_default_def truthy_def
        add_log_counter_def sample_process_def main_setup_def)

end
